theory Spec2Isabelle
  imports Main
begin

section \<open>Data model of src/App.tsx\<close>

text \<open>
  The wire types of the source: \<open>ChatLine\<close>, and \<open>Message\<close>, the union of
  \<open>SeedsMessage\<close> (\<open>type: 'seeds'\<close>) and \<open>ChatMessage\<close> (\<open>type: 'chat'\<close>).
  The field \<open>id\<close> of a chat line is written \<open>id_line\<close>, since \<open>id\<close> is the identity
  function of HOL.
\<close>

record chat_line =
  id_line :: string
  sender :: string
  content :: string

datatype message = Seeds "string list" | Chat "chat_line list"

text \<open>
  A PeerJS \<open>DataConnection\<close>, as far as the source reads it: the remote identity
  \<open>conn.peer\<close> and \<open>conn.metadata\<close>. The metadata is \<open>None\<close> when the initiator attached
  none (then \<open>conn.metadata.peerIds\<close> throws a TypeError), \<open>Some None\<close> when it is an object
  without \<open>peerIds\<close> (then \<open>?? []\<close> applies), and \<open>Some (Some ids)\<close> otherwise.
\<close>

record data_connection =
  peer :: string
  metadata :: "string list option option"

text \<open>The error object that \<open>peer.on('error')\<close> delivers: its \<open>type\<close> tag and its message.\<close>

record peer_error =
  error_type :: string
  error_message :: string

text \<open>
  The field \<open>lastError\<close> is declared \<open>string | null\<close>, but the last branch of the error
  handler stores the error object itself: the stored value is either a string built by
  the handler or the object as it was received.
\<close>

datatype error_value = Text string | Raw peer_error

text \<open>
  Exceptions: \<open>new Error('not ready yet')\<close> of \<open>sendMessage\<close>, and the TypeError of a
  property read on \<open>undefined\<close>. A call either returns, or throws with the state as it
  is at the \<open>throw\<close>.
\<close>

datatype error = NotReady | TypeError

datatype 's completion = Normal 's | Throw error 's

fun state_of :: "'s completion \<Rightarrow> 's" where
  "state_of (Normal s) = s"
| "state_of (Throw e s) = s"

fun thrown :: "'s completion \<Rightarrow> error option" where
  "thrown (Normal s) = None"
| "thrown (Throw e s) = Some e"

subsection \<open>The JavaScript \<open>Map\<close>\<close>

text \<open>
  \<open>Map<string, DataConnection>\<close> iterates in insertion order, \<open>set\<close> on a key already
  present replaces the value where it stands, and \<open>delete\<close> removes the entry: an
  association list with these three operations.
\<close>

type_synonym 'v js_map = "(string \<times> 'v) list"

definition map_keys :: "'v js_map \<Rightarrow> string list" where
  "map_keys m = map fst m"

definition map_has :: "'v js_map \<Rightarrow> string \<Rightarrow> bool" where
  "map_has m k = (k \<in> set (map_keys m))"

fun map_set :: "'v js_map \<Rightarrow> string \<Rightarrow> 'v \<Rightarrow> 'v js_map" where
  "map_set [] k v = [(k, v)]"
| "map_set ((k', v') # m) k v = (if k' = k then (k, v) # m else (k', v') # map_set m k v)"

definition map_delete :: "'v js_map \<Rightarrow> string \<Rightarrow> 'v js_map" where
  "map_delete m k = filter (\<lambda>kv. fst kv \<noteq> k) m"

subsection \<open>lodash's \<open>uniqBy\<close>\<close>

text \<open>
  \<open>_.uniqBy(array, iteratee)\<close> walks the array from the left with the list of the keys
  seen so far, and keeps an element when its key has not been seen.
\<close>

fun baseUniq :: "('a \<Rightarrow> 'b) \<Rightarrow> 'b list \<Rightarrow> 'a list \<Rightarrow> 'a list" where
  "baseUniq f seen [] = []"
| "baseUniq f seen (x # xs) =
     (if f x \<in> set seen then baseUniq f seen xs else x # baseUniq f (f x # seen) xs)"

definition uniqBy :: "'a list \<Rightarrow> ('a \<Rightarrow> 'b) \<Rightarrow> 'a list" where
  "uniqBy xs f = baseUniq f [] xs"

text \<open>
  The words of the specification, "deduplicate by id keeping the first occurrence of each
  id": the element at position \<open>i\<close> stays exactly when no earlier position carries the
  same key.
\<close>

definition first_occurrences :: "('a \<Rightarrow> 'b) \<Rightarrow> 'a list \<Rightarrow> 'a list" where
  "first_occurrences f xs =
     map (\<lambda>i. xs ! i)
       (filter (\<lambda>i. \<forall>j \<in> set [0..<i]. f (xs ! j) \<noteq> f (xs ! i)) [0..<length xs])"

section \<open>The class \<open>MessagingPeer\<close>\<close>

record messaging_peer =
  username :: "string option"
  peerId :: string
  connections :: "data_connection js_map"
  conversation :: "chat_line list"
  isLoading :: bool
  lastError :: "error_value option"

text \<open>
  What the object does to its collaborators, in call order: the connections that
  \<open>peer.connect\<close> returned, the connections on which the four handlers
  (\<open>data\<close>, \<open>close\<close>, \<open>error\<close>, \<open>open\<close>) were registered, the calls of \<open>conn.send\<close>, and
  the number of \<open>emit('update')\<close>.
\<close>

record world =
  initiated :: "data_connection list"
  registered :: "data_connection list"
  sent :: "(data_connection \<times> message) list"
  updates :: nat

definition PeerIDSeed :: string where
  "PeerIDSeed = ''407d10227d90''"

text \<open>
  The constructor. \<open>_.kebabCase\<close> is a parameter. The test \<open>username ? ... : ...\<close> is
  JavaScript truthiness: an absent and an empty name both give the bare seed identity.
\<close>

definition MessagingPeer :: "(string \<Rightarrow> string) \<Rightarrow> string option \<Rightarrow> messaging_peer" where
  "MessagingPeer kebabCase name =
     \<lparr> username = name,
       peerId = (case name of
                   None \<Rightarrow> PeerIDSeed
                 | Some u \<Rightarrow> if u = [] then PeerIDSeed else PeerIDSeed @ ''-'' @ kebabCase u),
       connections = [],
       conversation = [],
       isLoading = True,
       lastError = None \<rparr>"

definition world0 :: world where
  "world0 = \<lparr> initiated = [], registered = [], sent = [], updates = 0 \<rparr>"

definition emit_update :: "world \<Rightarrow> world" where
  "emit_update w = w\<lparr> updates := Suc (updates w) \<rparr>"

text \<open>\<open>Array.prototype.forEach\<close> and \<open>_.each\<close> over a callback that may throw.\<close>

fun forEach :: "('a \<Rightarrow> 's \<Rightarrow> 's completion) \<Rightarrow> 'a list \<Rightarrow> 's \<Rightarrow> 's completion" where
  "forEach f [] s = Normal s"
| "forEach f (x # xs) s =
     (case f x s of Normal s' \<Rightarrow> forEach f xs s' | Throw e s' \<Rightarrow> Throw e s')"

lemma forEach_cong [fundef_cong]:
  "xs = ys \<Longrightarrow> s = t \<Longrightarrow> (\<And>x u. x \<in> set ys \<Longrightarrow> f x u = g x u)
   \<Longrightarrow> forEach f xs s = forEach g ys t"
  by (induction ys arbitrary: xs s t) (auto split: completion.splits)

text \<open>
  \<open>connectToPeer\<close> and \<open>handleNewConnection\<close> call each other. Neither assigns a field of
  the object (the connection set changes only in the \<open>open\<close>, \<open>close\<close> and \<open>error\<close>
  handlers, which run later), so the object is read and the world is passed along.
  \<open>peer.connect(peerId, opts)\<close> returns a connection to \<open>peerId\<close> that carries
  \<open>opts.metadata\<close>, here \<open>{peerIds: Array.from(this.connections.keys())}\<close>.
\<close>

definition peer_connect :: "string \<Rightarrow> string list \<Rightarrow> data_connection" where
  "peer_connect p ids = \<lparr> peer = p, metadata = Some (Some ids) \<rparr>"

definition unknown_peer :: "messaging_peer \<Rightarrow> string \<Rightarrow> bool" where
  "unknown_peer this p = (\<not> (map_has (connections this) p \<or> p = peerId this))"

fun advertised :: "data_connection \<Rightarrow> string list" where
  "advertised conn = (case metadata conn of Some (Some ids) \<Rightarrow> ids | _ \<Rightarrow> [])"

fun call_rank ::
  "messaging_peer \<times> string \<times> world + messaging_peer \<times> data_connection \<times> world \<Rightarrow> nat" where
  "call_rank (Inl (this, p, w)) = (if unknown_peer this p then 2 else 0)"
| "call_rank (Inr (this, conn, w)) =
     (if list_ex (unknown_peer this) (advertised conn) then 3 else 1)"

function connectToPeer :: "messaging_peer \<Rightarrow> string \<Rightarrow> world \<Rightarrow> world completion"
  and handleNewConnection ::
    "messaging_peer \<Rightarrow> data_connection \<Rightarrow> world \<Rightarrow> world completion" where
  "connectToPeer this p w =
     (if map_has (connections this) p \<or> p = peerId this then Normal w
      else let conn = peer_connect p (map_keys (connections this))
           in handleNewConnection this conn (w\<lparr> initiated := initiated w @ [conn] \<rparr>))"
| "handleNewConnection this conn w =
     (if map_has (connections this) (peer conn) then Normal w
      else case metadata conn of
             None \<Rightarrow> Throw TypeError w
           | Some md \<Rightarrow>
               (case forEach (connectToPeer this) (case md of None \<Rightarrow> [] | Some ids \<Rightarrow> ids) w of
                  Throw e w' \<Rightarrow> Throw e w'
                | Normal w' \<Rightarrow> Normal (w'\<lparr> registered := registered w' @ [conn] \<rparr>)))"
  by pat_completeness auto
termination
proof (relation "measure call_rank")
  show "wf (measure call_rank)"
    by simp
next
  fix this :: messaging_peer and p :: string and w :: world and x :: data_connection
  assume "\<not> (map_has (connections this) p \<or> p = peerId this)"
    and "x = peer_connect p (map_keys (connections this))"
  then show "(Inr (this, x, w\<lparr> initiated := initiated w @ [x] \<rparr>), Inl (this, p, w))
      \<in> measure call_rank"
    by (simp add: unknown_peer_def map_has_def list_ex_iff peer_connect_def)
next
  fix this :: messaging_peer and conn :: data_connection and w :: world
    and x2 :: "string list option" and xa :: string and xb :: world
  assume "metadata conn = Some x2"
    and "xa \<in> set (case x2 of None \<Rightarrow> [] | Some ids \<Rightarrow> ids)"
  then have "xa \<in> set (advertised conn)"
    by (cases x2) auto
  then show "(Inl (this, xa, xb), Inr (this, conn, w)) \<in> measure call_rank"
    by (auto simp: list_ex_iff simp del: advertised.simps)
qed

declare connectToPeer.simps [simp del] handleNewConnection.simps [simp del]

text \<open>\<open>send\<close>: \<open>this.connections.forEach((conn) => conn.send(msg))\<close>.\<close>

definition conn_send :: "data_connection \<Rightarrow> message \<Rightarrow> world \<Rightarrow> world" where
  "conn_send conn msg w = w\<lparr> sent := sent w @ [(conn, msg)] \<rparr>"

definition send :: "messaging_peer \<Rightarrow> message \<Rightarrow> world \<Rightarrow> world" where
  "send this msg w = fold (\<lambda>kv. conn_send (snd kv) msg) (connections this) w"

subsection \<open>The handlers\<close>

text \<open>
  Each handler takes the object and the world and gives both back. A throw inside
  \<open>connectToPeer\<close> or \<open>handleNewConnection\<close> leaves the handler at once.
\<close>

type_synonym system = "messaging_peer \<times> world"

fun with_this :: "messaging_peer \<Rightarrow> world completion \<Rightarrow> system completion" where
  "with_this this (Normal w) = Normal (this, w)"
| "with_this this (Throw e w) = Throw e (this, w)"

text \<open>\<open>this.peer.on('error', ...)\<close>\<close>

fun peer_on_error :: "peer_error \<Rightarrow> system \<Rightarrow> system completion" where
  "peer_on_error err (this, w) =
     (let this1 = this\<lparr> isLoading := False \<rparr>;
          this2 =
            (if error_type err = ''peer-unavailable''
               then this1\<lparr> lastError := Some (Text ''peer is unreachable'') \<rparr>
             else if error_type err = ''unavailable-id''
               then this1\<lparr> lastError := Some (Text (peerId this1 @ '' is already taken'')) \<rparr>
             else this1\<lparr> lastError := Some (Raw err) \<rparr>)
      in Normal (this2, emit_update w))"

text \<open>\<open>this.peer.on('connection', ...)\<close>\<close>

fun peer_on_connection :: "data_connection \<Rightarrow> system \<Rightarrow> system completion" where
  "peer_on_connection conn (this, w) = with_this this (handleNewConnection this conn w)"

text \<open>\<open>this.peer.on('open', ...)\<close>\<close>

fun peer_on_open :: "system \<Rightarrow> system completion" where
  "peer_on_open (this, w) =
     (let this1 = this\<lparr> isLoading := False, lastError := None \<rparr>;
          w1 = emit_update w
      in with_this this1 (connectToPeer this1 PeerIDSeed w1))"

text \<open>\<open>conn.on('data', ...)\<close>\<close>

fun conn_on_data :: "data_connection \<Rightarrow> message \<Rightarrow> system \<Rightarrow> system completion" where
  "conn_on_data conn (Seeds peerIds) (this, w) =
     (case forEach (connectToPeer this) peerIds w of
        Throw e w1 \<Rightarrow> Throw e (this, w1)
      | Normal w1 \<Rightarrow> Normal (this, emit_update w1))"
| "conn_on_data conn (Chat lines) (this, w) =
     (let this1 = this\<lparr> conversation := conversation this @ lines \<rparr>;
          this2 = this1\<lparr> conversation := uniqBy (conversation this1) id_line \<rparr>
      in Normal (this2, emit_update w))"

text \<open>\<open>conn.on('close', ...)\<close> and \<open>conn.on('error', ...)\<close>\<close>

fun conn_on_close :: "data_connection \<Rightarrow> system \<Rightarrow> system completion" where
  "conn_on_close conn (this, w) =
     Normal (this\<lparr> connections := map_delete (connections this) (peer conn) \<rparr>, w)"

fun conn_on_error :: "data_connection \<Rightarrow> system \<Rightarrow> system completion" where
  "conn_on_error conn (this, w) =
     Normal (this\<lparr> connections := map_delete (connections this) (peer conn) \<rparr>, w)"

text \<open>\<open>conn.on('open', ...)\<close>\<close>

fun conn_on_open :: "data_connection \<Rightarrow> system \<Rightarrow> system completion" where
  "conn_on_open conn (this, w) =
     (let this1 = this\<lparr> connections := map_set (connections this) (peer conn) conn \<rparr>;
          seedsMsg = Seeds (map_keys (connections this1));
          w1 = send this1 seedsMsg w;
          initialConv = Chat (conversation this1);
          w2 = send this1 initialConv w1
      in Normal (this1, w2))"

text \<open>
  \<open>sendMessage\<close>. The second argument is the string that \<open>randomId()\<close> returned, which
  comes from \<open>Math.random\<close>.
\<close>

fun sendMessage :: "string \<Rightarrow> string \<Rightarrow> system \<Rightarrow> system completion" where
  "sendMessage msg rid (this, w) =
     (if isLoading this then Throw NotReady (this, w)
      else let line = \<lparr> id_line = rid,
                        sender = (case username this of None \<Rightarrow> ''seed'' | Some u \<Rightarrow> u),
                        content = msg \<rparr>;
               this1 = this\<lparr> conversation := conversation this @ [line] \<rparr>;
               newMsg = Chat [line]
           in Normal (this1, send this1 newMsg w))"

text \<open>
  \<open>randomId\<close>. Each half is \<open>Math.random().toString(36).substring(7)\<close>; the arguments
  are the two renderings in base 36, such as \<open>0.i\<close> for the number 0.5. Nothing compares
  the result with the ids in use.
\<close>

definition randomId :: "string \<Rightarrow> string \<Rightarrow> string" where
  "randomId r1 r2 = drop 7 r1 @ ''-'' @ drop 7 r2"

subsection \<open>Runs\<close>

text \<open>
  What can happen to a \<open>MessagingPeer\<close>: the transport fires an event of the peer or of a
  connection, or the user interface calls \<open>sendMessage\<close>. An event of a connection runs
  a handler only when \<open>handleNewConnection\<close> has registered the handlers on that
  connection. After a throw the object stays as it was at the throw.
\<close>

datatype event =
    PeerError peer_error
  | PeerConnection data_connection
  | PeerOpen
  | ConnData data_connection message
  | ConnClose data_connection
  | ConnError data_connection
  | ConnOpen data_connection
  | SendMessage string string

fun step :: "event \<Rightarrow> system \<Rightarrow> system" where
  "step (PeerError err) s = state_of (peer_on_error err s)"
| "step (PeerConnection conn) s = state_of (peer_on_connection conn s)"
| "step PeerOpen s = state_of (peer_on_open s)"
| "step (ConnData conn data) s =
     (if conn \<in> set (registered (snd s)) then state_of (conn_on_data conn data s) else s)"
| "step (ConnClose conn) s =
     (if conn \<in> set (registered (snd s)) then state_of (conn_on_close conn s) else s)"
| "step (ConnError conn) s =
     (if conn \<in> set (registered (snd s)) then state_of (conn_on_error conn s) else s)"
| "step (ConnOpen conn) s =
     (if conn \<in> set (registered (snd s)) then state_of (conn_on_open conn s) else s)"
| "step (SendMessage msg rid) s = state_of (sendMessage msg rid s)"

definition run :: "event list \<Rightarrow> system \<Rightarrow> system" where
  "run evs s = fold step evs s"

text \<open>
  The transport gives every participant an identity of its own, so a connection that
  reaches a peer comes from another identity than the peer's.
\<close>

fun inbound_from_other :: "string \<Rightarrow> event \<Rightarrow> bool" where
  "inbound_from_other pid (PeerConnection conn) = (peer conn \<noteq> pid)"
| "inbound_from_other pid e = True"

text \<open>
  The id that \<open>randomId()\<close> returns is new: at each call of \<open>sendMessage\<close> in the run,
  no line of the chat log carries it yet.
\<close>

fun fresh_ids :: "event list \<Rightarrow> system \<Rightarrow> bool" where
  "fresh_ids [] s = True"
| "fresh_ids (SendMessage msg rid # evs) s =
     (rid \<notin> set (map id_line (conversation (fst s))) \<and> fresh_ids evs (step (SendMessage msg rid) s))"
| "fresh_ids (e # evs) s = fresh_ids evs (step e s)"

text \<open>
  The invariant behind the absence of a connection to oneself: the identity is the one
  the peer was built with, the connection set has no entry under it, and no connection
  that carries the handlers leads to it.
\<close>

definition no_self :: "string \<Rightarrow> system \<Rightarrow> bool" where
  "no_self pid s \<longleftrightarrow>
     peerId (fst s) = pid \<and> \<not> map_has (connections (fst s)) pid
     \<and> (\<forall>c \<in> set (registered (snd s)). peer c \<noteq> pid)"

section \<open>Properties\<close>

subsection \<open>The connection map\<close>

lemma map_keys_map_set:
  "map_keys (map_set m k v) = (if map_has m k then map_keys m else map_keys m @ [k])"
proof (induction m)
  case Nil
  show ?case by (simp add: map_keys_def map_has_def)
next
  case (Cons kv m)
  obtain k' v' where kv: "kv = (k', v')" by (cases kv)
  show ?case
  proof (cases "k' = k")
    case True
    with kv show ?thesis by (simp add: map_keys_def map_has_def)
  next
    case False
    with kv Cons.IH show ?thesis by (simp add: map_keys_def map_has_def)
  qed
qed

lemma map_has_map_set: "map_has (map_set m k v) k' = (k' = k \<or> map_has m k')"
  by (auto simp: map_has_def map_keys_map_set)

lemma map_has_map_delete: "map_has (map_delete m k) k' = (k' \<noteq> k \<and> map_has m k')"
  by (auto simp: map_has_def map_keys_def map_delete_def)

lemma distinct_map_set: "distinct (map_keys m) \<Longrightarrow> distinct (map_keys (map_set m k v))"
  by (auto simp: map_keys_map_set map_has_def)

lemma distinct_map_delete: "distinct (map_keys m) \<Longrightarrow> distinct (map_keys (map_delete m k))"
  by (simp add: map_keys_def map_delete_def distinct_map_filter)

lemma map_set_entry: "(peer c, c) \<in> set (map_set m (peer c) c)"
  by (induction m) auto

subsection \<open>\<open>send\<close>, \<open>connectToPeer\<close> and \<open>handleNewConnection\<close> in closed form\<close>

lemma fold_conn_send:
  "fold (\<lambda>kv. conn_send (snd kv) msg) m w = w\<lparr> sent := sent w @ map (\<lambda>kv. (snd kv, msg)) m \<rparr>"
  by (induction m arbitrary: w) (simp_all add: conn_send_def)

lemma send_eq:
  "send this msg w = w\<lparr> sent := sent w @ map (\<lambda>kv. (snd kv, msg)) (connections this) \<rparr>"
  by (simp add: send_def fold_conn_send)

lemma forEach_known:
  "\<forall>p \<in> set ps. \<not> unknown_peer this p \<Longrightarrow> forEach (connectToPeer this) ps w = Normal w"
  by (induction ps) (simp_all add: connectToPeer.simps unknown_peer_def)

lemma handleNewConnection_outbound:
  "\<not> map_has (connections this) p \<Longrightarrow>
   handleNewConnection this (peer_connect p (map_keys (connections this))) w =
     Normal (w\<lparr> registered := registered w @ [peer_connect p (map_keys (connections this))] \<rparr>)"
proof -
  assume fresh: "\<not> map_has (connections this) p"
  have "\<forall>k \<in> set (map_keys (connections this)). \<not> unknown_peer this k"
    by (simp add: unknown_peer_def map_has_def)
  then have "forEach (connectToPeer this) (map_keys (connections this)) w = Normal w"
    by (rule forEach_known)
  with fresh show ?thesis
    by (simp add: handleNewConnection.simps peer_connect_def)
qed

lemma connectToPeer_eq:
  "connectToPeer this p w =
     (if unknown_peer this p
      then Normal (w\<lparr> initiated := initiated w @ [peer_connect p (map_keys (connections this))],
                      registered := registered w @ [peer_connect p (map_keys (connections this))] \<rparr>)
      else Normal w)"
  by (simp add: connectToPeer.simps [of this p w] unknown_peer_def
      handleNewConnection_outbound Let_def)

lemma forEach_connectToPeer_eq:
  "forEach (connectToPeer this) ps w =
     Normal (w\<lparr> initiated := initiated w @
                    map (\<lambda>p. peer_connect p (map_keys (connections this)))
                      (filter (unknown_peer this) ps),
                  registered := registered w @
                    map (\<lambda>p. peer_connect p (map_keys (connections this)))
                      (filter (unknown_peer this) ps) \<rparr>)"
  by (induction ps arbitrary: w) (simp_all add: connectToPeer_eq)

lemma handleNewConnection_eq:
  "handleNewConnection this conn w =
     (if map_has (connections this) (peer conn) then Normal w
      else if metadata conn = None then Throw TypeError w
      else Normal (w\<lparr> initiated := initiated w @
                         map (\<lambda>p. peer_connect p (map_keys (connections this)))
                           (filter (unknown_peer this) (advertised conn)),
                       registered := registered w @
                         map (\<lambda>p. peer_connect p (map_keys (connections this)))
                           (filter (unknown_peer this) (advertised conn)) @ [conn] \<rparr>))"
  by (auto simp: handleNewConnection.simps [of this conn w] forEach_connectToPeer_eq
      split: option.splits)

subsection \<open>\<open>uniqBy\<close>\<close>

lemma baseUniq_keys: "f ` set (baseUniq f seen xs) = f ` set xs - set seen"
  by (induction xs arbitrary: seen) auto

lemma baseUniq_distinct: "distinct (map f (baseUniq f seen xs))"
  by (induction xs arbitrary: seen) (auto simp: baseUniq_keys)

lemma baseUniq_seen_cong: "set seen = set seen' \<Longrightarrow> baseUniq f seen xs = baseUniq f seen' xs"
proof (induction xs arbitrary: seen seen')
  case Nil
  show ?case by simp
next
  case (Cons x xs)
  from Cons.prems have "set (f x # seen) = set (f x # seen')" by simp
  then have "baseUniq f (f x # seen) xs = baseUniq f (f x # seen') xs"
    by (rule Cons.IH)
  moreover from Cons.prems have "baseUniq f seen xs = baseUniq f seen' xs"
    by (rule Cons.IH)
  ultimately show ?case using Cons.prems by simp
qed

lemma baseUniq_append:
  "baseUniq f seen (xs @ ys) = baseUniq f seen xs @ baseUniq f (map f xs @ seen) ys"
proof (induction xs arbitrary: seen)
  case Nil
  show ?case by simp
next
  case (Cons x xs)
  show ?case
  proof (cases "f x \<in> set seen")
    case True
    then have "set (map f xs @ seen) = set (map f (x # xs) @ seen)" by auto
    then have "baseUniq f (map f xs @ seen) ys = baseUniq f (map f (x # xs) @ seen) ys"
      by (rule baseUniq_seen_cong)
    with True Cons.IH [of seen] show ?thesis by simp
  next
    case False
    have "set (map f xs @ f x # seen) = set (map f (x # xs) @ seen)" by auto
    then have "baseUniq f (map f xs @ f x # seen) ys = baseUniq f (map f (x # xs) @ seen) ys"
      by (rule baseUniq_seen_cong)
    with False Cons.IH [of "f x # seen"] show ?thesis by simp
  qed
qed

lemma baseUniq_id:
  "distinct (map f xs) \<Longrightarrow> f ` set xs \<inter> set seen = {} \<Longrightarrow> baseUniq f seen xs = xs"
  by (induction xs arbitrary: seen) auto

lemma baseUniq_all_seen: "f ` set xs \<subseteq> set seen \<Longrightarrow> baseUniq f seen xs = []"
  by (induction xs) auto

lemma uniqBy_keys: "f ` set (uniqBy xs f) = f ` set xs"
  by (simp add: uniqBy_def baseUniq_keys)

lemma uniqBy_distinct: "distinct (map f (uniqBy xs f))"
  by (simp add: uniqBy_def baseUniq_distinct)

lemma uniqBy_merge_known:
  "distinct (map f xs) \<Longrightarrow> f ` set ys \<subseteq> f ` set xs \<Longrightarrow> uniqBy (xs @ ys) f = xs"
  by (simp add: uniqBy_def baseUniq_append baseUniq_id baseUniq_all_seen)

lemma ball_upt_Suc:
  "(\<forall>j \<in> set [0..<Suc i]. R j) = (R 0 \<and> (\<forall>j \<in> set [0..<i]. R (Suc j)))"
  by (simp add: Ball_def All_less_Suc2 del: upt_Suc)

lemma baseUniq_positions:
  "baseUniq f seen xs =
     map (\<lambda>i. xs ! i)
       (filter (\<lambda>i. f (xs ! i) \<notin> set seen \<and> (\<forall>j \<in> set [0..<i]. f (xs ! j) \<noteq> f (xs ! i)))
          [0..<length xs])"
proof (induction xs arbitrary: seen)
  case Nil
  show ?case by simp
next
  case (Cons x xs)
  define P where
    "P s i \<longleftrightarrow> f (xs ! i) \<notin> set s \<and> (\<forall>j \<in> set [0..<i]. f (xs ! j) \<noteq> f (xs ! i))" for s i
  define Q where
    "Q i \<longleftrightarrow> f ((x # xs) ! i) \<notin> set seen
        \<and> (\<forall>j \<in> set [0..<i]. f ((x # xs) ! j) \<noteq> f ((x # xs) ! i))" for i
  have IH: "baseUniq f s xs = map (\<lambda>i. xs ! i) (filter (P s) [0..<length xs])" for s
    unfolding P_def by (rule Cons.IH)
  have upt: "[0..<length (x # xs)] = 0 # map Suc [0..<length xs]"
    by (simp add: upt_conv_Cons map_Suc_upt del: upt_Suc)
  have Q_0: "Q 0 \<longleftrightarrow> f x \<notin> set seen"
    by (simp add: Q_def)
  have Q_Suc: "Q (Suc i) \<longleftrightarrow> f (xs ! i) \<notin> set seen \<and> f x \<noteq> f (xs ! i)
        \<and> (\<forall>j \<in> set [0..<i]. f (xs ! j) \<noteq> f (xs ! i))" for i
    unfolding Q_def ball_upt_Suc by simp
  have tail: "map (\<lambda>i. (x # xs) ! i) (filter Q (map Suc [0..<length xs]))
      = map (\<lambda>i. xs ! i) (filter (\<lambda>i. Q (Suc i)) [0..<length xs])"
    by (simp add: filter_map comp_def)
  have goal: "baseUniq f seen (x # xs) = map (\<lambda>i. (x # xs) ! i) (filter Q (0 # map Suc [0..<length xs]))"
  proof (cases "f x \<in> set seen")
    case True
    then have "(\<lambda>i. Q (Suc i)) = P seen"
      unfolding Q_Suc P_def by auto
    with True show ?thesis
      by (simp add: tail IH Q_0 del: upt_Suc)
  next
    case False
    have "(\<lambda>i. Q (Suc i)) = P (f x # seen)"
      unfolding Q_Suc P_def by auto
    with False show ?thesis
      by (simp add: tail IH Q_0 del: upt_Suc)
  qed
  show ?case
    unfolding upt using goal unfolding Q_def .
qed

lemma uniqBy_first_occurrences: "uniqBy xs f = first_occurrences f xs"
  by (simp add: uniqBy_def first_occurrences_def baseUniq_positions)

subsection \<open>What one step changes\<close>

lemma step_peerId: "peerId (fst (step e s)) = peerId (fst s)"
proof (cases s)
  case (Pair this w)
  show ?thesis
  proof (cases e)
    case (ConnData c m)
    with Pair show ?thesis
      by (cases m) (simp_all add: forEach_connectToPeer_eq Let_def)
  qed (simp_all add: Pair Let_def connectToPeer_eq handleNewConnection_eq)
qed

lemma step_connections:
  "connections (fst (step e s)) =
     (case e of
        ConnOpen c \<Rightarrow> if c \<in> set (registered (snd s))
                      then map_set (connections (fst s)) (peer c) c else connections (fst s)
      | ConnClose c \<Rightarrow> if c \<in> set (registered (snd s))
                      then map_delete (connections (fst s)) (peer c) else connections (fst s)
      | ConnError c \<Rightarrow> if c \<in> set (registered (snd s))
                      then map_delete (connections (fst s)) (peer c) else connections (fst s)
      | _ \<Rightarrow> connections (fst s))"
proof (cases s)
  case (Pair this w)
  show ?thesis
  proof (cases e)
    case (ConnData c m)
    with Pair show ?thesis
      by (cases m) (simp_all add: forEach_connectToPeer_eq Let_def)
  qed (simp_all add: Pair Let_def connectToPeer_eq handleNewConnection_eq)
qed

lemma step_conversation:
  "conversation (fst (step e s)) =
     (case e of
        ConnData c (Chat lines) \<Rightarrow>
          if c \<in> set (registered (snd s))
          then uniqBy (conversation (fst s) @ lines) id_line else conversation (fst s)
      | SendMessage msg rid \<Rightarrow>
          if isLoading (fst s) then conversation (fst s)
          else conversation (fst s) @
            [\<lparr> id_line = rid,
               sender = (case username (fst s) of None \<Rightarrow> ''seed'' | Some u \<Rightarrow> u),
               content = msg \<rparr>]
      | _ \<Rightarrow> conversation (fst s))"
proof (cases s)
  case (Pair this w)
  show ?thesis
  proof (cases e)
    case (ConnData c m)
    with Pair show ?thesis
      by (cases m) (simp_all add: forEach_connectToPeer_eq Let_def)
  qed (simp_all add: Pair Let_def connectToPeer_eq handleNewConnection_eq)
qed

lemma step_registered:
  assumes "c \<in> set (registered (snd (step e s)))"
  shows "c \<in> set (registered (snd s)) \<or> peer c \<noteq> peerId (fst s) \<or> e = PeerConnection c"
proof (cases s)
  case (Pair this w)
  show ?thesis
  proof (cases e)
    case (ConnData c' m)
    with Pair assms show ?thesis
      by (cases m)
        (auto simp: forEach_connectToPeer_eq Let_def emit_update_def unknown_peer_def
          peer_connect_def split: if_splits)
  next
    case (PeerConnection c')
    with Pair assms show ?thesis
      by (auto simp: handleNewConnection_eq unknown_peer_def peer_connect_def
          split: if_splits)
  next
    case PeerOpen
    with Pair assms show ?thesis
      by (auto simp: connectToPeer_eq Let_def emit_update_def unknown_peer_def
          peer_connect_def split: if_splits)
  next
    case (PeerError err)
    with Pair assms show ?thesis
      by (simp add: Let_def emit_update_def)
  next
    case (ConnClose c')
    with Pair assms show ?thesis
      by (simp split: if_splits)
  next
    case (ConnError c')
    with Pair assms show ?thesis
      by (simp split: if_splits)
  next
    case (ConnOpen c')
    with Pair assms show ?thesis
      by (simp add: Let_def send_eq split: if_splits)
  next
    case (SendMessage msg rid)
    with Pair assms show ?thesis
      by (simp add: Let_def send_eq split: if_splits)
  qed
qed

lemma run_Nil: "run [] s = s"
  by (simp add: run_def)

lemma run_Cons: "run (e # evs) s = run evs (step e s)"
  by (simp add: run_def)

subsection \<open>Invariants of runs\<close>

lemma step_distinct_keys:
  "distinct (map_keys (connections (fst s))) \<Longrightarrow>
   distinct (map_keys (connections (fst (step e s))))"
  unfolding step_connections
  by (simp add: distinct_map_set distinct_map_delete split: event.splits)

lemma run_distinct_keys:
  "distinct (map_keys (connections (fst s))) \<Longrightarrow>
   distinct (map_keys (connections (fst (run evs s))))"
proof (induction evs arbitrary: s)
  case Nil
  then show ?case by (simp add: run_Nil)
next
  case (Cons e evs)
  from Cons.prems have "distinct (map_keys (connections (fst (step e s))))"
    by (rule step_distinct_keys)
  then show ?case
    unfolding run_Cons by (rule Cons.IH)
qed

lemma step_only_open_adds:
  "(\<forall>c. e \<noteq> ConnOpen c) \<Longrightarrow>
   set (map_keys (connections (fst (step e s)))) \<subseteq> set (map_keys (connections (fst s)))"
  unfolding step_connections
  by (auto simp: map_keys_def map_delete_def split: event.splits)

lemma step_distinct_ids:
  assumes "distinct (map id_line (conversation (fst s)))"
    and "\<And>msg rid. e = SendMessage msg rid \<Longrightarrow> rid \<notin> set (map id_line (conversation (fst s)))"
  shows "distinct (map id_line (conversation (fst (step e s))))"
proof (cases e)
  case (ConnData c m)
  with assms(1) show ?thesis
    unfolding step_conversation by (cases m) (simp_all add: uniqBy_distinct)
next
  case (SendMessage msg rid)
  with assms(1) assms(2) [of msg rid] show ?thesis
    unfolding step_conversation by simp
qed (use assms(1) in \<open>simp_all add: step_conversation del: step.simps\<close>)

lemma run_distinct_ids:
  "distinct (map id_line (conversation (fst s))) \<Longrightarrow> fresh_ids evs s \<Longrightarrow>
   distinct (map id_line (conversation (fst (run evs s))))"
proof (induction evs arbitrary: s)
  case Nil
  then show ?case by (simp add: run_Nil)
next
  case (Cons e evs)
  have fresh: "rid \<notin> set (map id_line (conversation (fst s)))" if "e = SendMessage msg rid" for msg rid
    using Cons.prems(2) that by simp
  have rest: "fresh_ids evs (step e s)"
    using Cons.prems(2) by (cases e) simp_all
  from Cons.prems(1) fresh have "distinct (map id_line (conversation (fst (step e s))))"
    by (rule step_distinct_ids)
  then show ?case
    unfolding run_Cons using rest by (rule Cons.IH)
qed

subsection \<open>No connection to oneself\<close>

lemma step_no_self:
  assumes inv: "no_self pid s" and inbound: "inbound_from_other pid e"
  shows "no_self pid (step e s)"
proof -
  from inv have pid: "peerId (fst s) = pid"
    and conns: "\<not> map_has (connections (fst s)) pid"
    and regs: "\<And>c. c \<in> set (registered (snd s)) \<Longrightarrow> peer c \<noteq> pid"
    by (simp_all add: no_self_def)
  have "peerId (fst (step e s)) = pid"
    using pid by (simp only: step_peerId)
  moreover have "\<not> map_has (connections (fst (step e s))) pid"
    unfolding step_connections using conns regs
    by (auto simp: map_has_map_set map_has_map_delete split: event.splits)
  moreover have "peer c \<noteq> pid" if "c \<in> set (registered (snd (step e s)))" for c
  proof -
    from that have "c \<in> set (registered (snd s)) \<or> peer c \<noteq> peerId (fst s)
        \<or> e = PeerConnection c"
      by (rule step_registered)
    with regs pid inbound show ?thesis
      by auto
  qed
  ultimately show ?thesis
    by (simp add: no_self_def)
qed

lemma run_no_self:
  "no_self pid s \<Longrightarrow> list_all (inbound_from_other pid) evs \<Longrightarrow> no_self pid (run evs s)"
proof (induction evs arbitrary: s)
  case Nil
  then show ?case by (simp add: run_Nil)
next
  case (Cons e evs)
  from Cons.prems have "no_self pid (step e s)"
    by (simp add: step_no_self)
  moreover from Cons.prems have "list_all (inbound_from_other pid) evs"
    by simp
  ultimately show ?case
    unfolding run_Cons by (rule Cons.IH)
qed

subsection \<open>The peer's error handler in closed form\<close>

lemma peer_on_error_eq:
  "peer_on_error err (this, w) =
     Normal (this\<lparr> isLoading := False,
                   lastError := Some
                     (if error_type err = ''peer-unavailable'' then Text ''peer is unreachable''
                      else if error_type err = ''unavailable-id''
                        then Text (peerId this @ '' is already taken'')
                      else Raw err) \<rparr>,
             w\<lparr> updates := Suc (updates w) \<rparr>)"
  by (simp add: Let_def emit_update_def)

section \<open>The claims\<close>

text \<open>
  C1 (as the code has it). When a connection opens, the handler stores it in the
  connection set under its remote identity; then it sends a seeds message listing the
  keys of the connection set to every connection of the set, the new one included, and
  after that a chat message holding the whole chat log, again to every connection of the
  set. The handler emits no \<open>update\<close>.
\<close>

theorem conn_open_gossip:
  "conn_on_open conn (this, w) =
     Normal (this\<lparr> connections := map_set (connections this) (peer conn) conn \<rparr>,
             w\<lparr> sent := sent w
                @ map (\<lambda>kv. (snd kv, Seeds (map_keys (map_set (connections this) (peer conn) conn))))
                    (map_set (connections this) (peer conn) conn)
                @ map (\<lambda>kv. (snd kv, Chat (conversation this)))
                    (map_set (connections this) (peer conn) conn) \<rparr>)
   \<and> updates (snd (state_of (conn_on_open conn (this, w)))) = updates w"
  by (simp add: Let_def send_eq)

text \<open>
  C1 as the specification words it (gossip to the new peer alone, then an \<open>update\<close>)
  does not hold: with a connection to \<open>a\<close> already in the set, the opening of a
  connection to \<open>b\<close> sends both messages to \<open>a\<close> as well, and the number of
  \<open>update\<close> notifications stays 0.
\<close>

theorem conn_open_gossip_counterexample:
  "sent (snd (state_of (conn_on_open \<lparr> peer = ''b'', metadata = Some (Some []) \<rparr>
      (\<lparr> username = Some ''carol'', peerId = ''407d10227d90-carol'',
         connections = [(''a'', \<lparr> peer = ''a'', metadata = Some (Some []) \<rparr>)],
         conversation = [], isLoading = False, lastError = None \<rparr>,
       \<lparr> initiated = [], registered = [], sent = [], updates = 0 \<rparr>))))
   = [(\<lparr> peer = ''a'', metadata = Some (Some []) \<rparr>, Seeds [''a'', ''b'']),
      (\<lparr> peer = ''b'', metadata = Some (Some []) \<rparr>, Seeds [''a'', ''b'']),
      (\<lparr> peer = ''a'', metadata = Some (Some []) \<rparr>, Chat []),
      (\<lparr> peer = ''b'', metadata = Some (Some []) \<rparr>, Chat [])]
   \<and> updates (snd (state_of (conn_on_open \<lparr> peer = ''b'', metadata = Some (Some []) \<rparr>
      (\<lparr> username = Some ''carol'', peerId = ''407d10227d90-carol'',
         connections = [(''a'', \<lparr> peer = ''a'', metadata = Some (Some []) \<rparr>)],
         conversation = [], isLoading = False, lastError = None \<rparr>,
       \<lparr> initiated = [], registered = [], sent = [], updates = 0 \<rparr>)))) = 0"
  by (simp add: Let_def send_def conn_send_def map_keys_def)

text \<open>
  C2. While \<open>isLoading\<close> is true, \<open>sendMessage\<close> throws the not-ready error with the
  object and the world as they were: the chat log is unchanged and nothing is sent on
  any connection. The not-ready error is thrown exactly when the peer is loading.
\<close>

theorem sendMessage_not_ready:
  "(isLoading this \<longrightarrow>
      sendMessage msg rid (this, w) = Throw NotReady (this, w)
      \<and> conversation (fst (state_of (sendMessage msg rid (this, w)))) = conversation this
      \<and> sent (snd (state_of (sendMessage msg rid (this, w)))) = sent w)
   \<and> (thrown (sendMessage msg rid (this, w)) = Some NotReady \<longleftrightarrow> isLoading this)"
  by (simp add: Let_def)

theorem sendMessage_not_ready_witness:
  "isLoading (MessagingPeer (\<lambda>u. u) None)
   \<and> sendMessage ''hello'' ''k3x9a-p0q2z'' (MessagingPeer (\<lambda>u. u) None, world0)
       = Throw NotReady (MessagingPeer (\<lambda>u. u) None, world0)
   \<and> thrown (sendMessage ''hello'' ''k3x9a-p0q2z'' (MessagingPeer (\<lambda>u. u) None, world0))
       = Some NotReady"
  using sendMessage_not_ready
    [of "MessagingPeer (\<lambda>u. u) None" "''hello''" "''k3x9a-p0q2z''" world0]
  by (simp add: MessagingPeer_def)



text \<open>
  C4. The handler of a received chat message puts the received lines, in the order
  received, behind the chat log, and keeps of the result the first line of every id,
  in the order of that list; then it emits one \<open>update\<close>.
\<close>

theorem chat_merge_first_occurrences:
  "conn_on_data conn (Chat lines) (this, w) =
     Normal (this\<lparr> conversation := first_occurrences id_line (conversation this @ lines) \<rparr>,
             w\<lparr> updates := Suc (updates w) \<rparr>)"
  by (simp add: Let_def emit_update_def uniqBy_first_occurrences)

theorem chat_merge_first_occurrences_witness:
  "conversation (fst (state_of (conn_on_data \<lparr> peer = ''a'', metadata = None \<rparr>
      (Chat [\<lparr> id_line = ''y'', sender = ''bob'', content = ''again'' \<rparr>,
             \<lparr> id_line = ''z'', sender = ''bob'', content = ''new'' \<rparr>,
             \<lparr> id_line = ''z'', sender = ''bob'', content = ''late'' \<rparr>])
      (\<lparr> username = None, peerId = ''407d10227d90'', connections = [],
         conversation = [\<lparr> id_line = ''x'', sender = ''seed'', content = ''one'' \<rparr>,
                         \<lparr> id_line = ''y'', sender = ''bob'', content = ''two'' \<rparr>],
         isLoading = False, lastError = None \<rparr>, world0))))
   = [\<lparr> id_line = ''x'', sender = ''seed'', content = ''one'' \<rparr>,
      \<lparr> id_line = ''y'', sender = ''bob'', content = ''two'' \<rparr>,
      \<lparr> id_line = ''z'', sender = ''bob'', content = ''new'' \<rparr>]"
  using chat_merge_first_occurrences
    [of "\<lparr> peer = ''a'', metadata = None \<rparr>"
        "[\<lparr> id_line = ''y'', sender = ''bob'', content = ''again'' \<rparr>,
          \<lparr> id_line = ''z'', sender = ''bob'', content = ''new'' \<rparr>,
          \<lparr> id_line = ''z'', sender = ''bob'', content = ''late'' \<rparr>]"
        "\<lparr> username = None, peerId = ''407d10227d90'', connections = [],
           conversation = [\<lparr> id_line = ''x'', sender = ''seed'', content = ''one'' \<rparr>,
                           \<lparr> id_line = ''y'', sender = ''bob'', content = ''two'' \<rparr>],
           isLoading = False, lastError = None \<rparr>" world0]
  by (simp add: first_occurrences_def atLeast0_lessThan_Suc)

text \<open>
  C5 (as the code has it). After the merge of a received chat message the ids of the
  chat log are distinct, whatever the log was before. \<open>sendMessage\<close> appends its line
  without deduplicating: on a peer that is not loading, the ids are distinct afterwards
  exactly when they were distinct before and the id that \<open>randomId()\<close> returned is not in
  the log yet. So along every run from a new peer in which each generated id is new, the
  ids of the chat log are distinct. The merge of a line whose id is in the log already
  leaves the number of distinct ids as it was, and leaves a log with distinct ids as it
  was altogether.
\<close>

theorem chat_log_distinct_ids:
  "distinct (map id_line (conversation (fst (state_of (conn_on_data conn (Chat lines) (this, w))))))
   \<and> (fresh_ids evs (MessagingPeer kebabCase name, world0) \<longrightarrow>
        distinct (map id_line (conversation (fst (run evs (MessagingPeer kebabCase name, world0))))))
   \<and> (id_line l \<in> set (map id_line (conversation this)) \<longrightarrow>
        card (set (map id_line
          (conversation (fst (state_of (conn_on_data conn (Chat [l]) (this, w)))))))
        = card (set (map id_line (conversation this)))
        \<and> (distinct (map id_line (conversation this)) \<longrightarrow>
             conversation (fst (state_of (conn_on_data conn (Chat [l]) (this, w))))
             = conversation this))
   \<and> (\<not> isLoading this \<longrightarrow>
        distinct (map id_line (conversation (fst (state_of (sendMessage msg rid (this, w))))))
        = (distinct (map id_line (conversation this))
           \<and> rid \<notin> set (map id_line (conversation this))))"
proof -
  have merge: "distinct (map id_line
      (conversation (fst (state_of (conn_on_data conn (Chat lines) (this, w))))))"
    by (simp add: Let_def uniqBy_distinct)
  have init: "distinct (map id_line (conversation (fst (MessagingPeer kebabCase name, world0))))"
    by (simp add: MessagingPeer_def)
  have runs: "distinct (map id_line
      (conversation (fst (run evs (MessagingPeer kebabCase name, world0)))))"
    if "fresh_ids evs (MessagingPeer kebabCase name, world0)"
    using init that by (rule run_distinct_ids)
  have count: "set (map id_line
        (conversation (fst (state_of (conn_on_data conn (Chat [l]) (this, w))))))
      = set (map id_line (conversation this))"
    if "id_line l \<in> set (map id_line (conversation this))"
    using that by (auto simp: Let_def uniqBy_keys)
  have same: "conversation (fst (state_of (conn_on_data conn (Chat [l]) (this, w))))
      = conversation this"
    if "id_line l \<in> set (map id_line (conversation this))"
      and "distinct (map id_line (conversation this))"
    using that by (simp add: Let_def uniqBy_merge_known)
  have push: "distinct (map id_line (conversation (fst (state_of (sendMessage msg rid (this, w))))))
      = (distinct (map id_line (conversation this))
         \<and> rid \<notin> set (map id_line (conversation this)))"
    if "\<not> isLoading this"
    using that by (auto simp: Let_def)
  from merge runs count same push show ?thesis
    by simp
qed

theorem chat_log_distinct_ids_witness:
  "fresh_ids [PeerOpen, SendMessage ''hi'' ''r1'', SendMessage ''yo'' ''r2'']
     (MessagingPeer (\<lambda>u. u) None, world0)
   \<and> distinct (map id_line (conversation (fst
        (run [PeerOpen, SendMessage ''hi'' ''r1'', SendMessage ''yo'' ''r2'']
           (MessagingPeer (\<lambda>u. u) None, world0)))))
   \<and> id_line \<lparr> id_line = ''r1'', sender = ''bob'', content = ''other'' \<rparr>
       \<in> set (map id_line (conversation (fst
        (run [PeerOpen, SendMessage ''hi'' ''r1'', SendMessage ''yo'' ''r2'']
           (MessagingPeer (\<lambda>u. u) None, world0)))))
   \<and> card (set (map id_line (conversation (fst (state_of
        (conn_on_data \<lparr> peer = ''a'', metadata = None \<rparr>
           (Chat [\<lparr> id_line = ''r1'', sender = ''bob'', content = ''other'' \<rparr>])
           (run [PeerOpen, SendMessage ''hi'' ''r1'', SendMessage ''yo'' ''r2'']
              (MessagingPeer (\<lambda>u. u) None, world0))))))))
     = 2
   \<and> \<not> isLoading (fst (run [PeerOpen, SendMessage ''hi'' ''r1'', SendMessage ''yo'' ''r2'']
        (MessagingPeer (\<lambda>u. u) None, world0)))
   \<and> distinct (map id_line (conversation (fst (state_of
        (sendMessage ''more'' ''r3''
           (run [PeerOpen, SendMessage ''hi'' ''r1'', SendMessage ''yo'' ''r2'']
              (MessagingPeer (\<lambda>u. u) None, world0)))))))"
proof -
  have run_eq: "run [PeerOpen, SendMessage ''hi'' ''r1'', SendMessage ''yo'' ''r2'']
      (MessagingPeer (\<lambda>u. u) None, world0)
    = (\<lparr> username = None, peerId = PeerIDSeed, connections = [],
         conversation = [\<lparr> id_line = ''r1'', sender = ''seed'', content = ''hi'' \<rparr>,
                         \<lparr> id_line = ''r2'', sender = ''seed'', content = ''yo'' \<rparr>],
         isLoading = False, lastError = None \<rparr>,
       \<lparr> initiated = [], registered = [], sent = [], updates = Suc 0 \<rparr>)"
    by (simp add: run_def MessagingPeer_def world0_def Let_def connectToPeer_eq
        unknown_peer_def emit_update_def send_eq)
  have fresh: "fresh_ids [PeerOpen, SendMessage ''hi'' ''r1'', SendMessage ''yo'' ''r2'']
      (MessagingPeer (\<lambda>u. u) None, world0)"
    by (simp add: MessagingPeer_def world0_def Let_def connectToPeer_eq
        unknown_peer_def emit_update_def send_eq)
  show ?thesis
    using fresh chat_log_distinct_ids
      [of "\<lparr> peer = ''a'', metadata = None \<rparr>" "[]"
          "\<lparr> username = None, peerId = PeerIDSeed, connections = [],
             conversation = [\<lparr> id_line = ''r1'', sender = ''seed'', content = ''hi'' \<rparr>,
                             \<lparr> id_line = ''r2'', sender = ''seed'', content = ''yo'' \<rparr>],
             isLoading = False, lastError = None \<rparr>"
          "\<lparr> initiated = [], registered = [], sent = [], updates = Suc 0 \<rparr>"
          "[PeerOpen, SendMessage ''hi'' ''r1'', SendMessage ''yo'' ''r2'']"
          "\<lambda>u. u" None
          "\<lparr> id_line = ''r1'', sender = ''bob'', content = ''other'' \<rparr>"
          "''more''" "''r3''"]
    unfolding run_eq by simp
qed

text \<open>
  C5 as the specification words it (no two lines with the same id after every
  \<open>sendMessage\<close>) does not hold. When \<open>Math.random()\<close> gives 0.5 its rendering is \<open>0.i\<close>,
  both halves of the id are empty and \<open>randomId()\<close> returns \<open>-\<close>; two messages sent with
  this id are both in the chat log.
\<close>

theorem chat_log_distinct_ids_counterexample:
  "randomId ''0.i'' ''0.i'' = ''-''
   \<and> conversation (fst (run
        [PeerOpen, SendMessage ''hi'' (randomId ''0.i'' ''0.i''),
         SendMessage ''yo'' (randomId ''0.i'' ''0.i'')]
        (MessagingPeer id None, world0)))
     = [\<lparr> id_line = ''-'', sender = ''seed'', content = ''hi'' \<rparr>,
        \<lparr> id_line = ''-'', sender = ''seed'', content = ''yo'' \<rparr>]
   \<and> \<not> distinct (map id_line (conversation (fst (run
        [PeerOpen, SendMessage ''hi'' (randomId ''0.i'' ''0.i''),
         SendMessage ''yo'' (randomId ''0.i'' ''0.i'')]
        (MessagingPeer id None, world0)))))"
  by (simp add: randomId_def run_def MessagingPeer_def world0_def Let_def connectToPeer_eq
      unknown_peer_def emit_update_def send_eq)

text \<open>
  C6. Take a new peer and any run in which every connection that reaches the peer comes
  from another identity than its own. The lists of identities in the metadata of these
  connections and in the seeds messages are arbitrary and may name the peer itself.
  In the state the run reaches, the connection set has no entry under the peer's own
  identity.
\<close>

theorem no_self_connection:
  "list_all (inbound_from_other (peerId (MessagingPeer kebabCase name))) evs \<Longrightarrow>
   \<not> map_has (connections (fst (run evs (MessagingPeer kebabCase name, world0))))
       (peerId (MessagingPeer kebabCase name))"
proof -
  assume inbound: "list_all (inbound_from_other (peerId (MessagingPeer kebabCase name))) evs"
  have "no_self (peerId (MessagingPeer kebabCase name)) (MessagingPeer kebabCase name, world0)"
    by (simp add: no_self_def MessagingPeer_def world0_def map_has_def map_keys_def)
  then have "no_self (peerId (MessagingPeer kebabCase name))
      (run evs (MessagingPeer kebabCase name, world0))"
    using inbound by (rule run_no_self)
  then show ?thesis
    by (simp add: no_self_def)
qed

theorem no_self_connection_witness:
  "list_all (inbound_from_other (peerId (MessagingPeer (\<lambda>u. u) (Some ''ann''))))
     [PeerOpen,
      PeerConnection \<lparr> peer = ''407d10227d90-bob'', metadata = Some (Some [''407d10227d90-ann'']) \<rparr>,
      ConnOpen \<lparr> peer = ''407d10227d90-bob'', metadata = Some (Some [''407d10227d90-ann'']) \<rparr>,
      ConnData \<lparr> peer = ''407d10227d90-bob'', metadata = Some (Some [''407d10227d90-ann'']) \<rparr>
        (Seeds [''407d10227d90-ann'', ''407d10227d90-bob''])]
   \<and> map_keys (connections (fst (run
     [PeerOpen,
      PeerConnection \<lparr> peer = ''407d10227d90-bob'', metadata = Some (Some [''407d10227d90-ann'']) \<rparr>,
      ConnOpen \<lparr> peer = ''407d10227d90-bob'', metadata = Some (Some [''407d10227d90-ann'']) \<rparr>,
      ConnData \<lparr> peer = ''407d10227d90-bob'', metadata = Some (Some [''407d10227d90-ann'']) \<rparr>
        (Seeds [''407d10227d90-ann'', ''407d10227d90-bob''])]
     (MessagingPeer (\<lambda>u. u) (Some ''ann''), world0)))) = [''407d10227d90-bob'']
   \<and> \<not> map_has (connections (fst (run
     [PeerOpen,
      PeerConnection \<lparr> peer = ''407d10227d90-bob'', metadata = Some (Some [''407d10227d90-ann'']) \<rparr>,
      ConnOpen \<lparr> peer = ''407d10227d90-bob'', metadata = Some (Some [''407d10227d90-ann'']) \<rparr>,
      ConnData \<lparr> peer = ''407d10227d90-bob'', metadata = Some (Some [''407d10227d90-ann'']) \<rparr>
        (Seeds [''407d10227d90-ann'', ''407d10227d90-bob''])]
     (MessagingPeer (\<lambda>u. u) (Some ''ann''), world0)))) ''407d10227d90-ann''"
proof -
  have inbound: "list_all (inbound_from_other (peerId (MessagingPeer (\<lambda>u. u) (Some ''ann''))))
     [PeerOpen,
      PeerConnection \<lparr> peer = ''407d10227d90-bob'', metadata = Some (Some [''407d10227d90-ann'']) \<rparr>,
      ConnOpen \<lparr> peer = ''407d10227d90-bob'', metadata = Some (Some [''407d10227d90-ann'']) \<rparr>,
      ConnData \<lparr> peer = ''407d10227d90-bob'', metadata = Some (Some [''407d10227d90-ann'']) \<rparr>
        (Seeds [''407d10227d90-ann'', ''407d10227d90-bob''])]"
    by (simp add: MessagingPeer_def PeerIDSeed_def)
  have keys: "map_keys (connections (fst (run
     [PeerOpen,
      PeerConnection \<lparr> peer = ''407d10227d90-bob'', metadata = Some (Some [''407d10227d90-ann'']) \<rparr>,
      ConnOpen \<lparr> peer = ''407d10227d90-bob'', metadata = Some (Some [''407d10227d90-ann'']) \<rparr>,
      ConnData \<lparr> peer = ''407d10227d90-bob'', metadata = Some (Some [''407d10227d90-ann'']) \<rparr>
        (Seeds [''407d10227d90-ann'', ''407d10227d90-bob''])]
     (MessagingPeer (\<lambda>u. u) (Some ''ann''), world0)))) = [''407d10227d90-bob'']"
    by (simp add: run_def MessagingPeer_def PeerIDSeed_def world0_def Let_def connectToPeer_eq
        handleNewConnection_eq forEach_connectToPeer_eq unknown_peer_def emit_update_def
        send_eq map_has_def map_keys_def peer_connect_def)
  have pid: "peerId (MessagingPeer (\<lambda>u. u) (Some ''ann'')) = ''407d10227d90-ann''"
    by (simp add: MessagingPeer_def PeerIDSeed_def)
  show ?thesis
    using no_self_connection [OF inbound] inbound keys unfolding pid by simp
qed

text \<open>
  C7. For an identity that is in the connection set, a connect request does nothing:
  \<open>connectToPeer\<close> returns with the world as it was, so no connection is initiated, no
  handler is registered and nothing is sent; and neither function assigns the connection
  set. The same holds for \<open>handleNewConnection\<close> on a connection from that identity, and
  so for an inbound connection from it. The keys of the connection set are distinct in
  every state a run reaches: one connection for each remote identity.
\<close>

theorem connect_known_noop:
  "(map_has (connections this) p \<longrightarrow>
      connectToPeer this p w = Normal w
      \<and> handleNewConnection this (conn\<lparr> peer := p \<rparr>) w = Normal w
      \<and> peer_on_connection (conn\<lparr> peer := p \<rparr>) (this, w) = Normal (this, w))
   \<and> distinct (map_keys (connections (fst (run evs (MessagingPeer kebabCase name, world0)))))"
proof -
  have "distinct (map_keys (connections (fst (MessagingPeer kebabCase name, world0))))"
    by (simp add: MessagingPeer_def map_keys_def)
  then have "distinct (map_keys (connections (fst (run evs (MessagingPeer kebabCase name, world0)))))"
    by (rule run_distinct_keys)
  then show ?thesis
    by (simp add: connectToPeer_eq handleNewConnection_eq unknown_peer_def)
qed

theorem connect_known_noop_witness:
  "map_has (connections \<lparr> username = None, peerId = ''407d10227d90'',
        connections = [(''a'', \<lparr> peer = ''a'', metadata = None \<rparr>)],
        conversation = [], isLoading = False, lastError = None \<rparr>) ''a''
   \<and> connectToPeer \<lparr> username = None, peerId = ''407d10227d90'',
        connections = [(''a'', \<lparr> peer = ''a'', metadata = None \<rparr>)],
        conversation = [], isLoading = False, lastError = None \<rparr> ''a'' world0 = Normal world0
   \<and> handleNewConnection \<lparr> username = None, peerId = ''407d10227d90'',
        connections = [(''a'', \<lparr> peer = ''a'', metadata = None \<rparr>)],
        conversation = [], isLoading = False, lastError = None \<rparr>
        \<lparr> peer = ''a'', metadata = Some (Some [''b'']) \<rparr> world0 = Normal world0"
  using connect_known_noop
    [of "\<lparr> username = None, peerId = ''407d10227d90'',
        connections = [(''a'', \<lparr> peer = ''a'', metadata = None \<rparr>)],
        conversation = [], isLoading = False, lastError = None \<rparr>" "''a''" world0
        "\<lparr> peer = ''a'', metadata = Some (Some [''b'']) \<rparr>"]
  by (simp add: map_has_def map_keys_def)

text \<open>
  C8. For an error of a type other than \<open>peer-unavailable\<close> and \<open>unavailable-id\<close>, here
  \<open>network\<close> with the message \<open>Lost connection to server.\<close>, the handler of the peer's
  \<open>error\<close> event sets \<open>isLoading\<close> to false and emits one \<open>update\<close>, and it assigns to
  \<open>lastError\<close> the error object itself. The field, declared \<open>string | null\<close> and given a
  string in the two other branches, then holds an object and not the message.
\<close>

theorem peer_error_other_stores_object:
  "state_of (peer_on_error
      \<lparr> error_type = ''network'', error_message = ''Lost connection to server.'' \<rparr>
      (\<lparr> username = Some ''ann'', peerId = ''407d10227d90-ann'', connections = [],
         conversation = [], isLoading = True, lastError = None \<rparr>,
       \<lparr> initiated = [], registered = [], sent = [], updates = 0 \<rparr>))
   = (\<lparr> username = Some ''ann'', peerId = ''407d10227d90-ann'', connections = [],
        conversation = [], isLoading = False,
        lastError = Some (Raw
          \<lparr> error_type = ''network'', error_message = ''Lost connection to server.'' \<rparr>) \<rparr>,
      \<lparr> initiated = [], registered = [], sent = [], updates = Suc 0 \<rparr>)
   \<and> lastError (fst (state_of (peer_on_error
      \<lparr> error_type = ''network'', error_message = ''Lost connection to server.'' \<rparr>
      (\<lparr> username = Some ''ann'', peerId = ''407d10227d90-ann'', connections = [],
         conversation = [], isLoading = True, lastError = None \<rparr>,
       \<lparr> initiated = [], registered = [], sent = [], updates = 0 \<rparr>))))
     \<noteq> Some (Text ''Lost connection to server.'')"
  by (simp add: Let_def emit_update_def)

text \<open>
  C9. In the \<open>open\<close> handler the seeds message is built from the connection set after the
  new connection was stored in it. So the list it carries contains the identity of the
  peer that has just connected, that peer receives this list, and every connection of
  the set receives a list that contains the key it is stored under. A peer that is asked
  to connect to its own identity, as the recipient of such a list is, does nothing.
\<close>

theorem open_seeds_list_recipient:
  "peer conn \<in> set (map_keys (connections (fst (state_of (conn_on_open conn (this, w))))))
   \<and> (conn, Seeds (map_keys (connections (fst (state_of (conn_on_open conn (this, w)))))))
       \<in> set (sent (snd (state_of (conn_on_open conn (this, w)))))
   \<and> (\<forall>kv \<in> set (connections (fst (state_of (conn_on_open conn (this, w))))).
         fst kv \<in> set (map_keys (connections (fst (state_of (conn_on_open conn (this, w))))))
         \<and> (snd kv, Seeds (map_keys (connections (fst (state_of (conn_on_open conn (this, w)))))))
             \<in> set (sent (snd (state_of (conn_on_open conn (this, w))))))
   \<and> connectToPeer that (peerId that) w' = Normal w'"
proof -
  let ?cs = "map_set (connections this) (peer conn) conn"
  have res: "state_of (conn_on_open conn (this, w)) =
      (this\<lparr> connections := ?cs \<rparr>,
       w\<lparr> sent := sent w @ map (\<lambda>kv. (snd kv, Seeds (map_keys ?cs))) ?cs
                @ map (\<lambda>kv. (snd kv, Chat (conversation this))) ?cs \<rparr>)"
    by (simp add: Let_def send_eq)
  have entry: "(peer conn, conn) \<in> set ?cs"
    by (rule map_set_entry)
  then have key: "peer conn \<in> set (map_keys ?cs)"
    by (force simp: map_keys_def)
  from entry have "(conn, Seeds (map_keys ?cs)) \<in> (\<lambda>kv. (snd kv, Seeds (map_keys ?cs))) ` set ?cs"
    by force
  moreover have "connectToPeer that (peerId that) w' = Normal w'"
    by (simp add: connectToPeer_eq unknown_peer_def)
  ultimately show ?thesis
    using key unfolding res by (auto simp: map_keys_def)
qed

theorem open_seeds_list_recipient_witness:
  "sent (snd (state_of (conn_on_open \<lparr> peer = ''b'', metadata = None \<rparr>
      (\<lparr> username = None, peerId = ''407d10227d90'',
         connections = [(''a'', \<lparr> peer = ''a'', metadata = None \<rparr>)],
         conversation = [], isLoading = False, lastError = None \<rparr>, world0))))
   = [(\<lparr> peer = ''a'', metadata = None \<rparr>, Seeds [''a'', ''b'']),
      (\<lparr> peer = ''b'', metadata = None \<rparr>, Seeds [''a'', ''b'']),
      (\<lparr> peer = ''a'', metadata = None \<rparr>, Chat []),
      (\<lparr> peer = ''b'', metadata = None \<rparr>, Chat [])]
   \<and> (\<lparr> peer = ''b'', metadata = None \<rparr>, Seeds [''a'', ''b''])
       \<in> set (sent (snd (state_of (conn_on_open \<lparr> peer = ''b'', metadata = None \<rparr>
      (\<lparr> username = None, peerId = ''407d10227d90'',
         connections = [(''a'', \<lparr> peer = ''a'', metadata = None \<rparr>)],
         conversation = [], isLoading = False, lastError = None \<rparr>, world0)))))"
  using open_seeds_list_recipient
    [of "\<lparr> peer = ''b'', metadata = None \<rparr>"
        "\<lparr> username = None, peerId = ''407d10227d90'',
           connections = [(''a'', \<lparr> peer = ''a'', metadata = None \<rparr>)],
           conversation = [], isLoading = False, lastError = None \<rparr>" world0]
  by (simp add: Let_def send_def conn_send_def map_keys_def world0_def)

text \<open>
  C10. A connection enters the connection set only in its \<open>open\<close> handler: no other
  event adds a key. So the guard of \<open>connectToPeer\<close> does not see an attempt that is
  still pending. For an identity that is neither in the set nor the local one, a first
  request initiates a connection and registers its handlers; the set is as before, and
  a second request to the same identity initiates a second connection.
\<close>

theorem pending_connect_not_guarded:
  "(\<not> map_has (connections this) p \<and> p \<noteq> peerId this \<longrightarrow>
      connectToPeer this p w =
        Normal (w\<lparr> initiated := initiated w @ [peer_connect p (map_keys (connections this))],
                    registered := registered w @ [peer_connect p (map_keys (connections this))] \<rparr>)
      \<and> connectToPeer this p
          (w\<lparr> initiated := initiated w @ [peer_connect p (map_keys (connections this))],
              registered := registered w @ [peer_connect p (map_keys (connections this))] \<rparr>) =
        Normal (w\<lparr> initiated := initiated w @
                      [peer_connect p (map_keys (connections this)),
                       peer_connect p (map_keys (connections this))],
                    registered := registered w @
                      [peer_connect p (map_keys (connections this)),
                       peer_connect p (map_keys (connections this))] \<rparr>))
   \<and> ((\<forall>c. e \<noteq> ConnOpen c) \<longrightarrow>
        set (map_keys (connections (fst (step e s)))) \<subseteq> set (map_keys (connections (fst s))))"
  by (simp add: connectToPeer_eq unknown_peer_def step_only_open_adds)

theorem pending_connect_not_guarded_witness:
  "\<not> map_has (connections (MessagingPeer (\<lambda>u. u) (Some ''ann''))) PeerIDSeed
   \<and> PeerIDSeed \<noteq> peerId (MessagingPeer (\<lambda>u. u) (Some ''ann''))
   \<and> state_of (connectToPeer (MessagingPeer (\<lambda>u. u) (Some ''ann'')) PeerIDSeed
        (state_of (connectToPeer (MessagingPeer (\<lambda>u. u) (Some ''ann'')) PeerIDSeed world0)))
     = \<lparr> initiated = [\<lparr> peer = PeerIDSeed, metadata = Some (Some []) \<rparr>,
                       \<lparr> peer = PeerIDSeed, metadata = Some (Some []) \<rparr>],
         registered = [\<lparr> peer = PeerIDSeed, metadata = Some (Some []) \<rparr>,
                        \<lparr> peer = PeerIDSeed, metadata = Some (Some []) \<rparr>],
         sent = [], updates = 0 \<rparr>
   \<and> set (map_keys (connections (fst (step PeerOpen (MessagingPeer (\<lambda>u. u) (Some ''ann''), world0)))))
       \<subseteq> set (map_keys (connections (MessagingPeer (\<lambda>u. u) (Some ''ann''))))"
  using pending_connect_not_guarded
    [of "MessagingPeer (\<lambda>u. u) (Some ''ann'')" PeerIDSeed world0 PeerOpen
        "(MessagingPeer (\<lambda>u. u) (Some ''ann''), world0)"]
  by (simp add: MessagingPeer_def PeerIDSeed_def map_has_def map_keys_def world0_def
      peer_connect_def)

end
